theory Spec2Isabelle
  imports Main "HOL-Library.Word"
begin

section \<open>Python values\<close>

text \<open>
  The pipe works on JSON-shaped Python objects: the request body handed over by the host, the
  parsed events of the response stream and the parsed error bodies. A \<open>str\<close> is kept as the
  list of the bytes of its UTF-8 encoding, a \<open>float\<close> as the 64 bits of its IEEE-754 double,
  a \<open>dict\<close> (string keys, as JSON gives them) as an association list in insertion order.
\<close>

datatype pyval =
    PNone
  | PBool bool
  | PInt int
  | PFloat "64 word"
  | PStr string
  | PList "pyval list"
  | PDict "(string \<times> pyval) list"

text \<open>
  Exceptions, by the class the \<open>except\<close> clauses of the pipe dispatch on. Exceptions of the
  libraries carry their message; those the interpreter raises on an operation of the pipe carry
  the offending object.
\<close>

datatype exn =
    ConnectionError string
  | RequestException string
  | UnicodeDecodeError string
  | AttributeError pyval string
  | NotIterable pyval
  | NotSubscriptable pyval
  | Unhashable pyval
  | KeyError pyval
  | OtherException string

text \<open>Truth value of an object, as \<open>if x:\<close> tests it.\<close>

fun truthy :: "pyval \<Rightarrow> bool" where
  "truthy PNone = False"
| "truthy (PBool b) = b"
| "truthy (PInt i) = (i \<noteq> 0)"
| "truthy (PFloat w) = (w \<noteq> 0 \<and> w \<noteq> 0x8000000000000000)"
| "truthy (PStr s) = (s \<noteq> [])"
| "truthy (PList xs) = (xs \<noteq> [])"
| "truthy (PDict kvs) = (kvs \<noteq> [])"

text \<open>\<open>d.get(k, default)\<close> on a dict, and on an arbitrary object (AttributeError otherwise).\<close>

definition dict_get :: "(string \<times> pyval) list \<Rightarrow> string \<Rightarrow> pyval \<Rightarrow> pyval" where
  "dict_get kvs k dflt = (case map_of kvs k of None \<Rightarrow> dflt | Some v \<Rightarrow> v)"

fun py_get :: "pyval \<Rightarrow> string \<Rightarrow> pyval \<Rightarrow> exn + pyval" where
  "py_get (PDict kvs) k dflt = Inr (dict_get kvs k dflt)"
| "py_get v k dflt = Inl (AttributeError v ''get'')"

text \<open>The characters of a \<open>str\<close>: a UTF-8 lead byte with its continuation bytes.\<close>

definition is_cont :: "char \<Rightarrow> bool" where
  "is_cont c = (128 \<le> (of_char c :: nat) \<and> (of_char c :: nat) < 192)"

fun py_chars_aux :: "string \<Rightarrow> string \<Rightarrow> string list" where
  "py_chars_aux cur [] = [cur]"
| "py_chars_aux cur (c # cs) =
     (if is_cont c then py_chars_aux (cur @ [c]) cs else cur # py_chars_aux [c] cs)"

fun py_chars :: "string \<Rightarrow> string list" where
  "py_chars [] = []"
| "py_chars (c # cs) = py_chars_aux [c] cs"

text \<open>Iteration over an object (\<open>for x in v\<close>): a dict gives its keys, a str its characters.\<close>

fun py_iter :: "pyval \<Rightarrow> exn + pyval list" where
  "py_iter (PList xs) = Inr xs"
| "py_iter (PDict kvs) = Inr (map (\<lambda>kv. PStr (fst kv)) kvs)"
| "py_iter (PStr s) = Inr (map PStr (py_chars s))"
| "py_iter v = Inl (NotIterable v)"

text \<open>Decimal text of an integer, as \<open>str\<close> gives it.\<close>

definition digit_char :: "nat \<Rightarrow> char" where
  "digit_char d = ''0123456789'' ! d"

function str_nat :: "nat \<Rightarrow> string" where
  "str_nat n = (if n < 10 then [digit_char n] else str_nat (n div 10) @ [digit_char (n mod 10)])"
  by pat_completeness auto
termination
  by (relation "measure (\<lambda>n. n)") auto

declare str_nat.simps [simp del]

definition str_int :: "int \<Rightarrow> string" where
  "str_int i = (if i < 0 then CHR ''-'' # str_nat (nat (- i)) else str_nat (nat i))"

section \<open>The libraries the pipe calls\<close>

text \<open>
  The functions of the standard library, of \<open>requests\<close> and of \<open>open_webui\<close> that the pipe
  calls are not part of the repository; the pipe is modelled over any behaviour of theirs.
\<close>

record ag_ui_message =
  msg_id :: string
  role :: pyval
  content :: pyval

record context_item =
  description :: string
  ctx_value :: string

record original_params =
  temperature :: pyval
  top_p :: pyval
  top_k :: pyval
  stop :: pyval
  stream :: pyval
  max_tokens :: pyval

record forwarded_props =
  openwebui_request :: bool
  model :: pyval
  original_params :: original_params

record run_agent_input =
  threadId :: string
  runId :: string
  state :: "(string \<times> pyval) list"
  messages :: "ag_ui_message list"
  tools :: "pyval list"
  context_items :: "context_item list"
  forwardedProps :: forwarded_props

text \<open>A line of the response body: its text when it is UTF-8, the codec's message when not.\<close>

datatype raw_line = Line string | Undecodable string

record response =
  status_code :: int
  body_text :: string
  iter_lines :: "raw_line list"
  iter_failure :: "exn option"
  json :: "exn + pyval"

datatype http_outcome = Raised exn | Returned response

record externals =
  json_loads :: "string \<Rightarrow> pyval option"
  json_dumps :: "pyval \<Rightarrow> string"
  json_dumps_indent2 :: "pyval \<Rightarrow> string"
  py_repr :: "pyval \<Rightarrow> string"
  exn_str :: "exn \<Rightarrow> string"
  pop_system_message :: "pyval \<Rightarrow> exn + (pyval \<times> pyval list)"
  requests_post :: "string \<Rightarrow> run_agent_input \<Rightarrow> (string \<times> string) list \<Rightarrow> http_outcome"

text \<open>
  \<open>str(v)\<close>: a str is itself, None, bools and ints have their fixed text, and the text of a
  float, a list or a dict is its \<open>repr\<close>.
\<close>

fun py_str :: "externals \<Rightarrow> pyval \<Rightarrow> string" where
  "py_str L (PStr s) = s"
| "py_str L PNone = ''None''"
| "py_str L (PBool b) = (if b then ''True'' else ''False'')"
| "py_str L (PInt i) = str_int i"
| "py_str L v = py_repr L v"

section \<open>Configuration\<close>

record Valves =
  AG_UI_ENDPOINT_URL :: string
  THREAD_ID_PREFIX :: string
  DEFAULT_MODEL :: string

definition get_model_mapping :: "(string \<times> string) list" where
  "get_model_mapping = [(''agui-agent'', ''agui-agent'')]"

definition get_ag_ui_models :: "(string \<times> string) list list" where
  "get_ag_ui_models = [[(''id'', ''agui-agent''), (''name'', ''agui-agent'')]]"

definition pipes :: "(string \<times> string) list list" where
  "pipes = get_ag_ui_models"

section \<open>Request transformation\<close>

text \<open>
  \<open>uuid.uuid4()\<close> is a draw from a source of identifiers: the source is a sequence \<open>g\<close> of
  the texts of the UUIDs and the state is the number of draws made so far.
\<close>

type_synonym uuid_source = "nat \<Rightarrow> string"

text \<open>\<open>"." in v\<close>: substring test on a str, membership on a list, key test on a dict.\<close>

fun contains_dot :: "pyval \<Rightarrow> exn + bool" where
  "contains_dot (PStr s) = Inr (CHR ''.'' \<in> set s)"
| "contains_dot (PList xs) = Inr (PStr ''.'' \<in> set xs)"
| "contains_dot (PDict kvs) = Inr (''.'' \<in> fst ` set kvs)"
| "contains_dot v = Inl (NotIterable v)"

text \<open>\<open>v.split(".", 1)[1]\<close>, taken only when \<open>"." in v\<close> holds.\<close>

fun split_dot_1 :: "pyval \<Rightarrow> exn + pyval" where
  "split_dot_1 (PStr s) = Inr (PStr (tl (dropWhile (\<lambda>c. c \<noteq> CHR ''.'') s)))"
| "split_dot_1 v = Inl (AttributeError v ''split'')"

text \<open>\<open>model_mapping.get(key, default)\<close>: the keys of the mapping are strs.\<close>

fun mapping_get :: "(string \<times> string) list \<Rightarrow> pyval \<Rightarrow> pyval \<Rightarrow> exn + pyval" where
  "mapping_get m (PStr k) dflt = Inr (case map_of m k of None \<Rightarrow> dflt | Some v \<Rightarrow> PStr v)"
| "mapping_get m (PList xs) dflt = Inl (Unhashable (PList xs))"
| "mapping_get m (PDict kvs) dflt = Inl (Unhashable (PDict kvs))"
| "mapping_get m v dflt = Inr dflt"

text \<open>Lines 92 to 103 of \<open>transform_openwebui_to_ag_ui\<close>: the model sent to the endpoint.\<close>

definition resolve_model :: "Valves \<Rightarrow> (string \<times> pyval) list \<Rightarrow> exn + pyval" where
  "resolve_model V body =
     (let requested_model = dict_get body ''model'' (PStr (DEFAULT_MODEL V)) in
      case (if truthy requested_model then contains_dot requested_model else Inr False) of
        Inl e \<Rightarrow> Inl e
      | Inr has_prefix \<Rightarrow>
          if has_prefix then
            (case split_dot_1 requested_model of
               Inl e \<Rightarrow> Inl e
             | Inr model_id \<Rightarrow> mapping_get get_model_mapping model_id (PStr (DEFAULT_MODEL V)))
          else mapping_get get_model_mapping requested_model requested_model)"

text \<open>The loop over the regular messages; the message at position \<open>k\<close> takes draw \<open>i + k\<close>.\<close>

fun transform_messages :: "uuid_source \<Rightarrow> nat \<Rightarrow> pyval list \<Rightarrow> exn + ag_ui_message list" where
  "transform_messages g i [] = Inr []"
| "transform_messages g i (msg # rest) =
     (case py_get msg ''role'' (PStr ''user'') of
        Inl e \<Rightarrow> Inl e
      | Inr r \<Rightarrow>
          (case py_get msg ''content'' (PStr []) of
             Inl e \<Rightarrow> Inl e
           | Inr c \<Rightarrow>
               (case transform_messages g (Suc i) rest of
                  Inl e \<Rightarrow> Inl e
                | Inr ms \<Rightarrow> Inr (\<lparr>msg_id = ''msg_'' @ g i, role = r, content = c\<rparr> # ms))))"

definition request_metadata :: "(string \<times> pyval) list \<Rightarrow> pyval \<Rightarrow> pyval" where
  "request_metadata body requested_model = PDict
     [(''original_model'', dict_get body ''model'' PNone),
      (''requested_model'', requested_model),
      (''user_preferences'', dict_get body ''user'' (PDict [])),
      (''source'', PStr ''openwebui_pipe''),
      (''temperature'', dict_get body ''temperature'' PNone),
      (''max_tokens'', dict_get body ''max_tokens'' PNone),
      (''stream'', dict_get body ''stream'' (PBool True))]"

text \<open>
  The result is the request together with the number of draws made when it returns; an
  exception leaves the function without a request.
\<close>

definition transform_openwebui_to_ag_ui ::
    "externals \<Rightarrow> Valves \<Rightarrow> uuid_source \<Rightarrow> nat \<Rightarrow> (string \<times> pyval) list
      \<Rightarrow> exn + (run_agent_input \<times> nat)" where
  "transform_openwebui_to_ag_ui L V g i body =
     (case pop_system_message L (dict_get body ''messages'' (PList [])) of
        Inl e \<Rightarrow> Inl e
      | Inr (system_message, msgs) \<Rightarrow>
          (let thread_id = THREAD_ID_PREFIX V @ ''_'' @ g i;
               run_id = ''run_'' @ g (i + 1);
               sys_msgs = (if truthy system_message
                 then [\<lparr>msg_id = ''msg_'' @ g (i + 2), role = PStr ''system'',
                         content = PStr (py_str L system_message)\<rparr>]
                 else []);
               j = i + 2 + length sys_msgs
           in case transform_messages g j msgs of
                Inl e \<Rightarrow> Inl e
              | Inr ag_ui_msgs \<Rightarrow>
                  (case resolve_model V body of
                     Inl e \<Rightarrow> Inl e
                   | Inr requested_model \<Rightarrow> Inr
                       (\<lparr>threadId = thread_id,
                         runId = run_id,
                         state = [],
                         messages = sys_msgs @ ag_ui_msgs,
                         tools = [],
                         context_items =
                           [\<lparr>description = ''OpenWebUI request metadata'',
                             ctx_value = json_dumps L (request_metadata body requested_model)\<rparr>],
                         forwardedProps =
                           \<lparr>openwebui_request = True,
                            model = requested_model,
                            original_params =
                              \<lparr>temperature = dict_get body ''temperature'' PNone,
                               top_p = dict_get body ''top_p'' PNone,
                               top_k = dict_get body ''top_k'' PNone,
                               stop = dict_get body ''stop'' PNone,
                               stream = dict_get body ''stream'' PNone,
                               max_tokens = dict_get body ''max_tokens'' PNone\<rparr>\<rparr>\<rparr>,
                        j + length msgs))))"

subsection \<open>The helper of Open WebUI\<close>

text \<open>
  \<open>pop_system_message\<close> is imported from \<open>open_webui.utils.misc\<close>, which is not among the
  sources of the pipe. The spec has it split the system-role message off the message sequence,
  whatever its position; the definitions below follow that, in the three steps of the helper.
\<close>

text \<open>
  Modelled from the spec: the role of a message, \<open>message["role"]\<close>, with KeyError on a dict
  without the key and TypeError on an object that is no dict.
\<close>

fun getitem_role :: "pyval \<Rightarrow> exn + pyval" where
  "getitem_role (PDict kvs) =
     (case map_of kvs ''role'' of None \<Rightarrow> Inl (KeyError (PStr ''role'')) | Some v \<Rightarrow> Inr v)"
| "getitem_role v = Inl (NotSubscriptable v)"

text \<open>
  Modelled from the spec: \<open>get_system_message\<close>, the first message whose role is
  \<open>system\<close>, None when there is none.
\<close>

fun get_system_message :: "pyval list \<Rightarrow> exn + pyval" where
  "get_system_message [] = Inr PNone"
| "get_system_message (m # ms) =
     (case getitem_role m of
        Inl e \<Rightarrow> Inl e
      | Inr r \<Rightarrow> if r = PStr ''system'' then Inr m else get_system_message ms)"

text \<open>
  Modelled from the spec: \<open>remove_system_message\<close>, the messages whose role is not
  \<open>system\<close>, in their order.
\<close>

fun remove_system_message :: "pyval list \<Rightarrow> exn + pyval list" where
  "remove_system_message [] = Inr []"
| "remove_system_message (m # ms) =
     (case getitem_role m of
        Inl e \<Rightarrow> Inl e
      | Inr r \<Rightarrow>
          (case remove_system_message ms of
             Inl e \<Rightarrow> Inl e
           | Inr rest \<Rightarrow> Inr (if r \<noteq> PStr ''system'' then m # rest else rest)))"

text \<open>
  Modelled from the spec: \<open>pop_system_message\<close>, missing from the sources, splits the
  system-role message off the message sequence: it returns the first message whose role is
  \<open>system\<close> (None when there is none), whatever its position, and the sequence without its
  system-role messages.
\<close>

definition owui_pop_system_message :: "pyval \<Rightarrow> exn + (pyval \<times> pyval list)" where
  "owui_pop_system_message msgs =
     (case py_iter msgs of
        Inl e \<Rightarrow> Inl e
      | Inr ms \<Rightarrow>
          (case get_system_message ms of
             Inl e \<Rightarrow> Inl e
           | Inr system_message \<Rightarrow>
               (case remove_system_message ms of
                  Inl e \<Rightarrow> Inl e
                | Inr rest \<Rightarrow> Inr (system_message, rest))))"

section \<open>Error reporting\<close>

text \<open>\<open>sep.join(xs)\<close>.\<close>

fun py_join :: "string \<Rightarrow> string list \<Rightarrow> string" where
  "py_join sep [] = []"
| "py_join sep [x] = x"
| "py_join sep (x # y # ys) = x @ sep @ py_join sep (y # ys)"

text \<open>
  The three \<open>except\<close> clauses that close \<open>stream_ag_ui_request\<close> and
  \<open>non_stream_ag_ui_request\<close>, in their order: the text shown for an exception.
\<close>

fun handle_exception :: "externals \<Rightarrow> Valves \<Rightarrow> exn \<Rightarrow> string" where
  "handle_exception L V (ConnectionError m) =
     ''Error: Failed to connect to AG-UI endpoint at '' @ AG_UI_ENDPOINT_URL V
       @ ''. Please check if the AG-UI endpoint is running.''"
| "handle_exception L V (RequestException m) =
     ''Error: Failed to connect to AG-UI endpoint: '' @ exn_str L (RequestException m)"
| "handle_exception L V e = ''Error: '' @ exn_str L e"

text \<open>One validation error of a 422 body, rendered as \<open>f"{field}: {msg}"\<close>.\<close>

definition format_validation_error :: "externals \<Rightarrow> pyval \<Rightarrow> exn + string" where
  "format_validation_error L error =
     (case py_get error ''loc'' (PList []) of
        Inl e \<Rightarrow> Inl e
      | Inr loc \<Rightarrow>
          (case py_iter loc of
             Inl e \<Rightarrow> Inl e
           | Inr locs \<Rightarrow>
               (case py_get error ''msg'' (PStr ''Unknown error'') of
                  Inl e \<Rightarrow> Inl e
                | Inr msg \<Rightarrow>
                    Inr (py_join ''.'' (map (py_str L) locs) @ '': '' @ py_str L msg))))"

fun validation_errors :: "externals \<Rightarrow> pyval list \<Rightarrow> exn + string list" where
  "validation_errors L [] = Inr []"
| "validation_errors L (error # rest) =
     (case format_validation_error L error of
        Inl e \<Rightarrow> Inl e
      | Inr s \<Rightarrow>
          (case validation_errors L rest of
             Inl e \<Rightarrow> Inl e
           | Inr ss \<Rightarrow> Inr (s # ss)))"

text \<open>
  The text for a response whose status is not 200 (lines 185 to 204 of the streaming function,
  and the same computation at lines 308 to 325 of the other one).
\<close>

definition generic_error :: "response \<Rightarrow> string" where
  "generic_error r =
     ''Error: AG-UI endpoint returned '' @ str_int (status_code r) @ '': '' @ body_text r"

definition http_error_message :: "externals \<Rightarrow> response \<Rightarrow> exn + string" where
  "http_error_message L r =
     (if status_code r = 422 then
        (case json_loads L (body_text r) of
           None \<Rightarrow> Inr (generic_error r)
         | Some error_data \<Rightarrow>
             (case error_data of
                PList errors \<Rightarrow>
                  (case validation_errors L errors of
                     Inl e \<Rightarrow> Inl e
                   | Inr ves \<Rightarrow> Inr (''Validation Error: '' @ py_join ''; '' ves))
              | _ \<Rightarrow> Inr (generic_error r)))
      else Inr (generic_error r))"

section \<open>The streaming path\<close>

definition wrench :: string where
  "wrench = [CHR 0xF0, CHR 0x9F, CHR 0x94, CHR 0xA7]"

definition clipboard :: string where
  "clipboard = [CHR 0xF0, CHR 0x9F, CHR 0x93, CHR 0x8B]"

definition newline :: string where
  "newline = [CHR 0x0A]"

text \<open>
  The dispatch on the type of one parsed event: the chunks it yields and whether the loop
  is left (\<open>break\<close>).
\<close>

fun handle_event :: "externals \<Rightarrow> pyval \<Rightarrow> exn + (pyval list \<times> bool)" where
  "handle_event L (PDict ev) = Inr
     (let event_type = dict_get ev ''type'' (PStr []) in
      if event_type = PStr ''TEXT_MESSAGE_CONTENT'' then
        (let delta = dict_get ev ''delta'' (PStr []) in
         if truthy delta then ([delta], False) else ([], False))
      else if event_type = PStr ''TEXT_MESSAGE_START'' then ([], False)
      else if event_type = PStr ''TEXT_MESSAGE_END'' then ([], False)
      else if event_type = PStr ''RUN_STARTED'' then ([], False)
      else if event_type = PStr ''RUN_FINISHED'' then ([], True)
      else if event_type = PStr ''RUN_ERROR'' then
        (let error_msg = dict_get ev ''message'' (PStr ''Unknown error'') in
         ([PStr (''Error from AG-UI endpoint: '' @ py_str L error_msg)], True))
      else if event_type = PStr ''TOOL_CALL_START'' then
        (let tool_name = dict_get ev ''toolCallName'' (PStr ''unknown'') in
         ([PStr (newline @ ''**'' @ wrench @ '' Calling tool: `'' @ py_str L tool_name
                   @ ''`**'' @ newline)], False))
      else if event_type = PStr ''TOOL_CALL_ARGS'' then
        (let args_delta = dict_get ev ''delta'' (PStr []) in
         if truthy args_delta then ([args_delta], False) else ([], False))
      else if event_type = PStr ''TOOL_CALL_END'' then ([PStr newline], False)
      else if event_type = PStr ''TOOL_CALL_RESULT'' then
        (let tool_result = dict_get ev ''content'' (PStr []) in
         if truthy tool_result then
           ([PStr (''**'' @ clipboard @ '' Tool result:**'' @ newline @ ''```'' @ newline
                     @ py_str L tool_result @ newline @ ''```'' @ newline @ newline)], False)
         else ([], False))
      else ([], False))"
| "handle_event L v = Inl (AttributeError v ''get'')"

definition startswith :: "string \<Rightarrow> string \<Rightarrow> bool" where
  "startswith s p = (take (length p) s = p)"

text \<open>
  The loop over the lines of the response: the chunks yielded, and the exception that ended
  the loop if one did. \<open>fin\<close> is the exception the transport raises when the lines are
  exhausted, if it raises one.
\<close>

fun stream_events :: "externals \<Rightarrow> raw_line list \<Rightarrow> exn option \<Rightarrow> pyval list \<times> exn option" where
  "stream_events L [] fin = ([], fin)"
| "stream_events L (Undecodable m # rest) fin = ([], Some (UnicodeDecodeError m))"
| "stream_events L (Line ln # rest) fin =
     (if ln \<noteq> [] \<and> startswith ln ''data: '' then
        (case json_loads L (drop 6 ln) of
           None \<Rightarrow> stream_events L rest fin
         | Some event_data \<Rightarrow>
             (case handle_event L event_data of
                Inl e \<Rightarrow> ([], Some e)
              | Inr (chunks, left) \<Rightarrow>
                  if left then (chunks, None)
                  else (let (more, x) = stream_events L rest fin in (chunks @ more, x))))
      else stream_events L rest fin)"

definition stream_headers :: "(string \<times> string) list" where
  "stream_headers = [(''Content-Type'', ''application/json''), (''Accept'', ''text/event-stream'')]"

text \<open>The body of the \<open>with\<close> block: the chunks yielded once the endpoint has answered.\<close>

definition stream_response :: "externals \<Rightarrow> Valves \<Rightarrow> response \<Rightarrow> pyval list" where
  "stream_response L V r =
     (if status_code r \<noteq> 200 then
        (case http_error_message L r of
           Inl e \<Rightarrow> [PStr (handle_exception L V e)]
         | Inr m \<Rightarrow> [PStr m])
      else
        (case stream_events L (iter_lines r) (iter_failure r) of
           (chunks, None) \<Rightarrow> chunks
         | (chunks, Some e) \<Rightarrow> chunks @ [PStr (handle_exception L V e)]))"

text \<open>The generator, as the list of the chunks it yields until it is exhausted.\<close>

definition stream_ag_ui_request :: "externals \<Rightarrow> Valves \<Rightarrow> run_agent_input \<Rightarrow> pyval list" where
  "stream_ag_ui_request L V ag_ui_request =
     (case requests_post L (AG_UI_ENDPOINT_URL V) ag_ui_request stream_headers of
        Raised e \<Rightarrow> [PStr (handle_exception L V e)]
      | Returned r \<Rightarrow> stream_response L V r)"

section \<open>The non-streaming path\<close>

text \<open>\<open>d[k] = v\<close>.\<close>

fun dict_set :: "string \<Rightarrow> pyval \<Rightarrow> (string \<times> pyval) list \<Rightarrow> (string \<times> pyval) list" where
  "dict_set k v [] = [(k, v)]"
| "dict_set k v ((k', v') # kvs) = (if k' = k then (k, v) # kvs else (k', v') # dict_set k v kvs)"

definition json_headers :: "(string \<times> string) list" where
  "json_headers = [(''Content-Type'', ''application/json''), (''Accept'', ''application/json'')]"

text \<open>Lines 332 to 345: the value returned for a parsed body.\<close>

fun extract_result :: "externals \<Rightarrow> pyval \<Rightarrow> pyval" where
  "extract_result L (PDict result) =
     (case map_of result ''content'' of
        Some v \<Rightarrow> v
      | None \<Rightarrow>
          (case map_of result ''message'' of
             Some v \<Rightarrow> v
           | None \<Rightarrow>
               (case map_of result ''text'' of
                  Some v \<Rightarrow> v
                | None \<Rightarrow>
                    (case map_of result ''result'' of
                       Some v \<Rightarrow> PStr (py_str L v)
                     | None \<Rightarrow> PStr (json_dumps_indent2 L (PDict result))))))"
| "extract_result L v = PStr (py_str L v)"

definition non_stream_ag_ui_request :: "externals \<Rightarrow> Valves \<Rightarrow> run_agent_input \<Rightarrow> pyval" where
  "non_stream_ag_ui_request L V ag_ui_request =
     (let request' = ag_ui_request\<lparr>state := dict_set ''stream'' (PBool False) (state ag_ui_request)\<rparr> in
      case requests_post L (AG_UI_ENDPOINT_URL V) request' json_headers of
        Raised e \<Rightarrow> PStr (handle_exception L V e)
      | Returned r \<Rightarrow>
          if status_code r \<noteq> 200 then
            (case http_error_message L r of
               Inl e \<Rightarrow> PStr (handle_exception L V e)
             | Inr m \<Rightarrow> PStr m)
          else
            (case json r of
               Inl e \<Rightarrow> PStr (handle_exception L V e)
             | Inr result \<Rightarrow> extract_result L result))"

section \<open>The entry point\<close>

datatype pipe_result = Chunks "pyval list" | Single pyval

definition pipe :: "externals \<Rightarrow> Valves \<Rightarrow> uuid_source \<Rightarrow> nat \<Rightarrow> (string \<times> pyval) list \<Rightarrow> pipe_result" where
  "pipe L V g i body =
     (case transform_openwebui_to_ag_ui L V g i body of
        Inl e \<Rightarrow> Single (PStr (''Error: '' @ exn_str L e))
      | Inr (ag_ui_request, j) \<Rightarrow>
          if truthy (dict_get body ''stream'' (PBool True))
          then Chunks (stream_ag_ui_request L V ag_ui_request)
          else Single (non_stream_ag_ui_request L V ag_ui_request))"

section \<open>Notions used to state the properties\<close>

text \<open>The model a transformation resolved, when it returned a request.\<close>

definition resolved_model :: "exn + (run_agent_input \<times> nat) \<Rightarrow> exn + pyval" where
  "resolved_model res = map_sum id (\<lambda>p. model (forwardedProps (fst p))) res"

text \<open>A line of the response stream that carries the payload \<open>p\<close>.\<close>

definition data_line :: "string \<Rightarrow> raw_line" where
  "data_line p = Line (''data: '' @ p)"

text \<open>
  The value an event carries under the key \<open>k\<close>, when the payload \<open>p\<close> of a line parses to
  an event; the event may carry any other keys.
\<close>

definition event_field :: "externals \<Rightarrow> string \<Rightarrow> string \<Rightarrow> pyval option" where
  "event_field L p k = (case json_loads L p of Some (PDict ev) \<Rightarrow> map_of ev k | _ \<Rightarrow> None)"

text \<open>
  A line that neither yields a chunk nor ends the stream: one that is blank or does not begin
  with \<open>data: \<close>, and one whose event only marks the start of the run or the start or the
  end of a message.
\<close>

fun passed_over :: "externals \<Rightarrow> raw_line \<Rightarrow> bool" where
  "passed_over L (Line ln) =
     (if startswith ln ''data: ''
      then event_field L (drop 6 ln) ''type''
             \<in> {Some (PStr ''RUN_STARTED''), Some (PStr ''TEXT_MESSAGE_START''),
                 Some (PStr ''TEXT_MESSAGE_END'')}
      else True)"
| "passed_over L (Undecodable m) = False"

text \<open>A message of the request body whose role is \<open>system\<close>.\<close>

definition is_system :: "pyval \<Rightarrow> bool" where
  "is_system m = (getitem_role m = Inr (PStr ''system''))"

text \<open>The role and the content a regular message of the body is sent with.\<close>

fun message_fields :: "pyval \<Rightarrow> pyval \<times> pyval" where
  "message_fields (PDict kvs) =
     (dict_get kvs ''role'' (PStr ''user''), dict_get kvs ''content'' (PStr []))"
| "message_fields v = (PNone, PNone)"

text \<open>The request as the non-streaming path sends it: its state asks for no stream.\<close>

definition non_streaming :: "run_agent_input \<Rightarrow> run_agent_input" where
  "non_streaming req = req\<lparr>state := dict_set ''stream'' (PBool False) (state req)\<rparr>"

text \<open>
  A validation error of a 422 body with the location \<open>locs\<close> and the message \<open>msg\<close>, and
  the text it is reported with: the location joined by \<open>.\<close>, a colon and the message.
\<close>

fun has_loc_msg :: "pyval \<Rightarrow> pyval list \<times> pyval \<Rightarrow> bool" where
  "has_loc_msg (PDict kvs) (locs, msg) =
     (map_of kvs ''loc'' = Some (PList locs) \<and> map_of kvs ''msg'' = Some msg)"
| "has_loc_msg v f = False"

definition render_validation_error :: "externals \<Rightarrow> pyval list \<times> pyval \<Rightarrow> string" where
  "render_validation_error L f =
     py_join ''.'' (map (py_str L) (fst f)) @ '': '' @ py_str L (snd f)"

section \<open>Reference inputs\<close>

text \<open>
  The default configuration of the pipe, the request of \<open>test_request_transformation\<close>, and
  stand-ins for the library functions: a table of parsed texts for \<open>json.loads\<close>, the
  Open WebUI helper as modelled above, fixed texts for the renderings, and an endpoint that
  cannot be reached.
\<close>

definition sample_valves :: Valves where
  "sample_valves =
     \<lparr>AG_UI_ENDPOINT_URL = ''http://host.docker.internal:8000'',
      THREAD_ID_PREFIX = ''openwebui'',
      DEFAULT_MODEL = ''agui-agent''\<rparr>"

definition sample_uuids :: uuid_source where
  "sample_uuids n = replicate (Suc n) CHR ''u''"

definition quoted :: "string \<Rightarrow> string" where
  "quoted s = CHR 0x22 # s @ [CHR 0x22]"

definition event_text :: "string \<Rightarrow> string" where
  "event_text ty = ''{'' @ quoted ''type'' @ '':'' @ quoted ty @ ''}''"

definition content_text :: "string \<Rightarrow> string" where
  "content_text d =
     ''{'' @ quoted ''type'' @ '':'' @ quoted ''TEXT_MESSAGE_CONTENT'' @ '',''
       @ quoted ''delta'' @ '':'' @ quoted d @ ''}''"

definition validation_text :: string where
  "validation_text =
     ''[{'' @ quoted ''loc'' @ '':['' @ quoted ''body'' @ '','' @ quoted ''model'' @ ''],''
       @ quoted ''msg'' @ '':'' @ quoted ''field required'' @ ''}]''"

definition detail_text :: string where
  "detail_text = ''{'' @ quoted ''detail'' @ '':[]}''"

definition sample_json :: "(string \<times> pyval) list" where
  "sample_json =
     [(event_text ''RUN_STARTED'', PDict [(''type'', PStr ''RUN_STARTED'')]),
      (event_text ''TEXT_MESSAGE_START'', PDict [(''type'', PStr ''TEXT_MESSAGE_START'')]),
      (content_text ''Hi'',
         PDict [(''type'', PStr ''TEXT_MESSAGE_CONTENT''), (''delta'', PStr ''Hi'')]),
      (content_text '' there'',
         PDict [(''type'', PStr ''TEXT_MESSAGE_CONTENT''), (''delta'', PStr '' there'')]),
      (content_text [],
         PDict [(''type'', PStr ''TEXT_MESSAGE_CONTENT''), (''delta'', PStr [])]),
      (event_text ''TEXT_MESSAGE_END'', PDict [(''type'', PStr ''TEXT_MESSAGE_END'')]),
      (event_text ''RUN_FINISHED'', PDict [(''type'', PStr ''RUN_FINISHED'')]),
      (validation_text,
         PList [PDict [(''loc'', PList [PStr ''body'', PStr ''model'']),
                       (''msg'', PStr ''field required'')]]),
      (detail_text, PDict [(''detail'', PList [])])]"

definition sample_externals :: externals where
  "sample_externals =
     \<lparr>json_loads = map_of sample_json,
      json_dumps = (\<lambda>v. ''<json>''),
      json_dumps_indent2 = (\<lambda>v. ''<indented json>''),
      py_repr = (\<lambda>v. ''<repr>''),
      exn_str = (\<lambda>e. ''<exception>''),
      pop_system_message = owui_pop_system_message,
      requests_post = (\<lambda>url request headers. Raised (ConnectionError []))\<rparr>"

definition sample_system_message :: pyval where
  "sample_system_message =
     PDict [(''role'', PStr ''system''), (''content'', PStr ''You are a helpful assistant.'')]"

definition sample_user_message :: pyval where
  "sample_user_message =
     PDict [(''role'', PStr ''user''),
            (''content'', PStr ''Hello! Can you explain what AG-UI is?'')]"

definition sample_body :: "(string \<times> pyval) list" where
  "sample_body =
     [(''messages'', PList [sample_system_message, sample_user_message]),
      (''model'', PStr ''aguimiddleware.openaigpt4omini''),
      (''temperature'', PFloat 0x3FE999999999999A),
      (''max_tokens'', PInt 1000),
      (''stream'', PBool True),
      (''top_p'', PFloat 0x3FECCCCCCCCCCCCD)]"

text \<open>The request the transformation makes of \<open>sample_body\<close> when \<open>i\<close> draws precede it.\<close>

definition sample_request :: "nat \<Rightarrow> run_agent_input" where
  "sample_request i =
     \<lparr>threadId = ''openwebui_'' @ sample_uuids i,
      runId = ''run_'' @ sample_uuids (i + 1),
      state = [],
      messages =
        [\<lparr>msg_id = ''msg_'' @ sample_uuids (i + 2), role = PStr ''system'',
          content = PStr ''<repr>''\<rparr>,
         \<lparr>msg_id = ''msg_'' @ sample_uuids (i + 3), role = PStr ''user'',
          content = PStr ''Hello! Can you explain what AG-UI is?''\<rparr>],
      tools = [],
      context_items =
        [\<lparr>description = ''OpenWebUI request metadata'', ctx_value = ''<json>''\<rparr>],
      forwardedProps =
        \<lparr>openwebui_request = True,
         model = PStr ''agui-agent'',
         original_params =
           \<lparr>temperature = PFloat 0x3FE999999999999A,
            top_p = PFloat 0x3FECCCCCCCCCCCCD,
            top_k = PNone,
            stop = PNone,
            stream = PBool True,
            max_tokens = PInt 1000\<rparr>\<rparr>\<rparr>"

text \<open>A body whose system message stands between two user messages.\<close>

definition late_system_body :: "(string \<times> pyval) list" where
  "late_system_body =
     [(''messages'',
         PList [PDict [(''role'', PStr ''user''), (''content'', PStr ''first'')],
                sample_system_message,
                PDict [(''role'', PStr ''user''), (''content'', PStr ''second'')]])]"

text \<open>
  An endpoint that answers every request with the response \<open>r\<close>, a response with status 200
  and nothing in it, and three streams: a run from its start to its end, two content events
  around a line that is not JSON, and two content events around one with an empty delta.
\<close>

definition sample_response :: response where
  "sample_response =
     \<lparr>status_code = 200, body_text = [], iter_lines = [], iter_failure = None,
      json = Inr PNone\<rparr>"

definition answering :: "response \<Rightarrow> externals" where
  "answering r = sample_externals\<lparr>requests_post := (\<lambda>url request headers. Returned r)\<rparr>"

definition finished_stream :: "raw_line list" where
  "finished_stream =
     map data_line
       [event_text ''RUN_STARTED'', event_text ''TEXT_MESSAGE_START'', content_text ''Hi'',
        content_text '' there'', event_text ''TEXT_MESSAGE_END'', event_text ''RUN_FINISHED'']"

text \<open>
  A response whose stream opens with a blank line, runs from start to finish, carries one more
  content event after RUN_FINISHED, and whose connection then fails.
\<close>

definition interrupted_run :: response where
  "interrupted_run =
     sample_response
       \<lparr>iter_lines := Line [] # finished_stream @ [data_line (content_text ''Hi'')],
        iter_failure := Some (ConnectionError [])\<rparr>"


definition empty_delta_stream :: "raw_line list" where
  "empty_delta_stream =
     [data_line (content_text ''Hi''), data_line (content_text []), data_line (content_text '' there'')]"

section \<open>Properties of the request transformation\<close>

lemma transform_sample:
  "transform_openwebui_to_ag_ui sample_externals sample_valves sample_uuids i sample_body
     = Inr (sample_request i, i + 4)"
  by (simp add: transform_openwebui_to_ag_ui_def sample_externals_def sample_valves_def
      sample_body_def sample_request_def owui_pop_system_message_def dict_get_def
      sample_system_message_def sample_user_message_def resolve_model_def
      get_model_mapping_def Let_def eval_nat_numeral)

lemma inj_sample_uuids: "inj sample_uuids"
  by (auto simp: inj_def sample_uuids_def dest: arg_cong[where f = length])

subsection \<open>Model resolution\<close>

lemma resolve_model_str:
  "map_of body ''model'' = Some (PStr s) \<Longrightarrow>
   resolve_model V body = Inr
     (if CHR ''.'' \<in> set s
      then (case map_of get_model_mapping (tl (dropWhile (\<lambda>c. c \<noteq> CHR ''.'') s)) of
              None \<Rightarrow> PStr (DEFAULT_MODEL V) | Some m \<Rightarrow> PStr m)
      else (case map_of get_model_mapping s of None \<Rightarrow> PStr s | Some m \<Rightarrow> PStr m))"
  by (auto simp: resolve_model_def dict_get_def Let_def)

lemma transform_model:
  "transform_openwebui_to_ag_ui L V g i body = Inr (req, j) \<Longrightarrow>
   resolve_model V body = Inr (model (forwardedProps req))"
  by (auto simp: transform_openwebui_to_ag_ui_def Let_def split: sum.splits prod.splits)

text \<open>
  C1, as stated, fails: a requested model without the separator that the mapping does not know
  is not replaced by the default model. The request for \<open>gpt-4\<close>, under the default
  configuration, resolves to \<open>gpt-4\<close> itself and not to \<open>agui-agent\<close>.
\<close>

theorem model_resolution_unmapped_counterexample:
  "map_of get_model_mapping ''gpt-4'' = None
   \<and> resolved_model (transform_openwebui_to_ag_ui sample_externals sample_valves sample_uuids 0
         [(''model'', PStr ''gpt-4'')]) = Inr (PStr ''gpt-4'')
   \<and> resolved_model (transform_openwebui_to_ag_ui sample_externals sample_valves sample_uuids 0
         [(''model'', PStr ''gpt-4'')]) \<noteq> Inr (PStr (DEFAULT_MODEL sample_valves))"
  by (simp add: resolved_model_def transform_openwebui_to_ag_ui_def sample_externals_def
      sample_valves_def owui_pop_system_message_def dict_get_def resolve_model_def
      get_model_mapping_def Let_def)

text \<open>
  C1, amended: when the requested model is a string with the separator \<open>.\<close>, the text after
  the first separator is looked up in the mapping of \<open>get_model_mapping\<close>; the resolved model
  is the mapped value, or the configured default model when the mapping has none. When the
  string has no separator, the whole string is looked up; the resolved model is the mapped
  value, or the requested string itself when the mapping has none.
\<close>

theorem model_resolution:
  assumes "transform_openwebui_to_ag_ui L V g i body = Inr (req, j)"
    and "map_of body ''model'' = Some (PStr s)"
  shows "model (forwardedProps req) =
     (if CHR ''.'' \<in> set s
      then (case map_of get_model_mapping (tl (dropWhile (\<lambda>c. c \<noteq> CHR ''.'') s)) of
              None \<Rightarrow> PStr (DEFAULT_MODEL V) | Some m \<Rightarrow> PStr m)
      else (case map_of get_model_mapping s of None \<Rightarrow> PStr s | Some m \<Rightarrow> PStr m))"
  using transform_model[OF assms(1)] resolve_model_str[OF assms(2), of V] by simp

text \<open>
  C1, on the request of the test: \<open>aguimiddleware.openaigpt4omini\<close> has the separator and
  \<open>openaigpt4omini\<close> is not mapped, so the default model \<open>agui-agent\<close> is sent.
\<close>

theorem model_resolution_witness:
  "transform_openwebui_to_ag_ui sample_externals sample_valves sample_uuids 0 sample_body
     = Inr (sample_request 0, 4)
   \<and> map_of sample_body ''model'' = Some (PStr ''aguimiddleware.openaigpt4omini'')
   \<and> model (forwardedProps (sample_request 0)) = PStr ''agui-agent''"
proof -
  have run: "transform_openwebui_to_ag_ui sample_externals sample_valves sample_uuids 0 sample_body
      = Inr (sample_request 0, 4)"
    using transform_sample[of 0] by simp
  have requested: "map_of sample_body ''model'' = Some (PStr ''aguimiddleware.openaigpt4omini'')"
    by (simp add: sample_body_def)
  from model_resolution[OF run requested]
  have "model (forwardedProps (sample_request 0)) = PStr ''agui-agent''"
    by (simp add: get_model_mapping_def sample_valves_def)
  with run requested show ?thesis by simp
qed

subsection \<open>Sampling parameters\<close>

text \<open>
  C3: the \<open>original_params\<close> of the forwarded properties hold, for each of \<open>temperature\<close>,
  \<open>top_p\<close>, \<open>top_k\<close>, \<open>stop\<close>, \<open>stream\<close> and \<open>max_tokens\<close>, the value the body has under
  that key, unchanged, and None when the body has no such key.
\<close>

theorem sampling_parameters_round_trip:
  assumes "transform_openwebui_to_ag_ui L V g i body = Inr (req, j)"
  shows "original_params (forwardedProps req) =
     \<lparr>temperature = (case map_of body ''temperature'' of None \<Rightarrow> PNone | Some v \<Rightarrow> v),
      top_p = (case map_of body ''top_p'' of None \<Rightarrow> PNone | Some v \<Rightarrow> v),
      top_k = (case map_of body ''top_k'' of None \<Rightarrow> PNone | Some v \<Rightarrow> v),
      stop = (case map_of body ''stop'' of None \<Rightarrow> PNone | Some v \<Rightarrow> v),
      stream = (case map_of body ''stream'' of None \<Rightarrow> PNone | Some v \<Rightarrow> v),
      max_tokens = (case map_of body ''max_tokens'' of None \<Rightarrow> PNone | Some v \<Rightarrow> v)\<rparr>"
  using assms
  by (auto simp: transform_openwebui_to_ag_ui_def Let_def dict_get_def
      split: sum.splits prod.splits)

text \<open>
  C3, on the request of the test: temperature 0.8, top_p 0.9, max_tokens 1000 and the stream
  flag are carried over, the absent \<open>top_k\<close> and \<open>stop\<close> are None.
\<close>

theorem sampling_parameters_round_trip_witness:
  "transform_openwebui_to_ag_ui sample_externals sample_valves sample_uuids 0 sample_body
     = Inr (sample_request 0, 4)
   \<and> original_params (forwardedProps (sample_request 0)) =
     \<lparr>temperature = PFloat 0x3FE999999999999A, top_p = PFloat 0x3FECCCCCCCCCCCCD,
      top_k = PNone, stop = PNone, stream = PBool True, max_tokens = PInt 1000\<rparr>"
proof -
  have run: "transform_openwebui_to_ag_ui sample_externals sample_valves sample_uuids 0 sample_body
      = Inr (sample_request 0, 4)"
    using transform_sample[of 0] by simp
  from sampling_parameters_round_trip[OF run]
  have "original_params (forwardedProps (sample_request 0)) =
     \<lparr>temperature = PFloat 0x3FE999999999999A, top_p = PFloat 0x3FECCCCCCCCCCCCD,
      top_k = PNone, stop = PNone, stream = PBool True, max_tokens = PInt 1000\<rparr>"
    by (simp add: sample_body_def)
  with run show ?thesis by simp
qed

subsection \<open>Identifiers\<close>

lemma transform_messages_ids:
  "transform_messages g i msgs = Inr ms \<Longrightarrow>
   map msg_id ms = map (\<lambda>k. ''msg_'' @ g k) [i..<i + length msgs]"
proof (induction msgs arbitrary: i ms)
  case Nil
  then show ?case by simp
next
  case (Cons m msgs)
  from Cons.prems obtain ms' where
    rest: "transform_messages g (Suc i) msgs = Inr ms'" and
    hd: "map msg_id ms = (''msg_'' @ g i) # map msg_id ms'"
    by (auto split: sum.splits)
  have "[i..<i + length (m # msgs)] = i # [Suc i..<Suc i + length msgs]"
    by (subst upt_conv_Cons) simp_all
  with Cons.IH[OF rest] hd show ?case by simp
qed

lemma transform_ids:
  assumes "transform_openwebui_to_ag_ui L V g i body = Inr (req, j)"
  shows "threadId req = THREAD_ID_PREFIX V @ ''_'' @ g i"
    and "runId req = ''run_'' @ g (i + 1)"
    and "i + 2 \<le> j"
    and "map msg_id (messages req) = map (\<lambda>k. ''msg_'' @ g k) [i + 2..<j]"
proof -
  from assms obtain sm msgs where pop: "pop_system_message L (dict_get body ''messages'' (PList [])) = Inr (sm, msgs)"
    by (auto simp: transform_openwebui_to_ag_ui_def split: sum.splits)
  define n where "n = (if truthy sm then 1 else 0 :: nat)"
  from assms pop obtain ms where
    tm: "transform_messages g (i + 2 + n) msgs = Inr ms"
    and j: "j = i + 2 + n + length msgs"
    and tid: "threadId req = THREAD_ID_PREFIX V @ ''_'' @ g i"
    and rid: "runId req = ''run_'' @ g (i + 1)"
    and ids: "map msg_id (messages req) = (if truthy sm then [''msg_'' @ g (i + 2)] else []) @ map msg_id ms"
    by (auto simp: transform_openwebui_to_ag_ui_def Let_def n_def split: sum.splits if_splits)
  show "threadId req = THREAD_ID_PREFIX V @ ''_'' @ g i" by (rule tid)
  show "runId req = ''run_'' @ g (i + 1)" by (rule rid)
  show "i + 2 \<le> j" using j by simp
  have "[i + 2..<j] = (if truthy sm then [i + 2] else []) @ [i + 2 + n..<i + 2 + n + length msgs]"
  proof (cases "truthy sm")
    case True
    then have "n = 1" by (simp add: n_def)
    then have "[i + 2..<j] = (i + 2) # [Suc (i + 2)..<j]"
      unfolding j by (subst upt_conv_Cons) simp_all
    with True \<open>n = 1\<close> show ?thesis by (simp add: j)
  next
    case False
    then show ?thesis by (simp add: n_def j)
  qed
  with transform_messages_ids[OF tm] ids
  show "map msg_id (messages req) = map (\<lambda>k. ''msg_'' @ g k) [i + 2..<j]"
    by (simp split: if_splits)
qed

text \<open>
  C4: when the source of UUIDs never gives the same UUID twice, the messages of a request have
  pairwise distinct ids, and a later call on the same body (one that starts after the draws of
  the first) has another thread id, another run id and no message id of the first.
\<close>

theorem fresh_identifiers:
  assumes g: "inj g"
    and first: "transform_openwebui_to_ag_ui L V g i body = Inr (req, j)"
    and second: "transform_openwebui_to_ag_ui L V g i' body = Inr (req', j')"
    and later: "j \<le> i'"
  shows "distinct (map msg_id (messages req))
       \<and> threadId req \<noteq> threadId req'
       \<and> runId req \<noteq> runId req'
       \<and> set (map msg_id (messages req)) \<inter> set (map msg_id (messages req')) = {}"
proof -
  have inj_msg: "inj (\<lambda>k. ''msg_'' @ g k)"
    using g by (auto simp: inj_def)
  note a = transform_ids[OF first] and b = transform_ids[OF second]
  have c1: "distinct (map msg_id (messages req))"
    unfolding a(4) using inj_msg by (simp add: distinct_map inj_on_def inj_def)
  from a(3) later have "i \<noteq> i'" by simp
  with g have c2: "threadId req \<noteq> threadId req'"
    unfolding a(1) b(1) by (auto simp: inj_def)
  from a(3) later have "i + 1 \<noteq> i' + 1" by simp
  with g have c3: "runId req \<noteq> runId req'"
    unfolding a(2) b(2) by (auto simp: inj_def)
  have dis: "{i + 2..<j} \<inter> {i' + 2..<j'} = {}" using later by auto
  have "\<And>A B :: nat set. A \<inter> B = {} \<Longrightarrow>
      (\<lambda>k. ''msg_'' @ g k) ` A \<inter> (\<lambda>k. ''msg_'' @ g k) ` B = {}"
    using g by (auto simp: inj_def)
  from this[OF dis] have c4: "set (map msg_id (messages req)) \<inter> set (map msg_id (messages req')) = {}"
    unfolding a(4) b(4) by simp
  from c1 c2 c3 c4 show ?thesis by simp
qed

text \<open>
  C4, on the request of the test transformed twice in a row, the second call starting at
  the fifth draw.
\<close>

theorem fresh_identifiers_witness:
  "inj sample_uuids
   \<and> transform_openwebui_to_ag_ui sample_externals sample_valves sample_uuids 0 sample_body
       = Inr (sample_request 0, 4)
   \<and> transform_openwebui_to_ag_ui sample_externals sample_valves sample_uuids 4 sample_body
       = Inr (sample_request 4, 8)
   \<and> distinct (map msg_id (messages (sample_request 0)))
   \<and> threadId (sample_request 0) \<noteq> threadId (sample_request 4)
   \<and> runId (sample_request 0) \<noteq> runId (sample_request 4)
   \<and> set (map msg_id (messages (sample_request 0)))
       \<inter> set (map msg_id (messages (sample_request 4))) = {}"
proof -
  have run1: "transform_openwebui_to_ag_ui sample_externals sample_valves sample_uuids 0 sample_body
      = Inr (sample_request 0, 4)"
    using transform_sample[of 0] by simp
  have run2: "transform_openwebui_to_ag_ui sample_externals sample_valves sample_uuids 4 sample_body
      = Inr (sample_request 4, 8)"
    using transform_sample[of 4] by simp
  have "(4::nat) \<le> 4" by simp
  from fresh_identifiers[OF inj_sample_uuids run1 run2 this] inj_sample_uuids run1 run2
  show ?thesis by blast
qed

subsection \<open>Placement of the system message\<close>

lemma get_system_message_first:
  "get_system_message (pre @ m0 # post) = Inr x \<Longrightarrow> is_system m0 \<Longrightarrow>
   \<forall>m\<in>set pre. \<not> is_system m \<Longrightarrow> x = m0"
  by (induction pre) (auto simp: is_system_def split: sum.splits if_splits)

lemma remove_system_message_filter:
  "remove_system_message ms = Inr rest \<Longrightarrow>
   rest = filter (\<lambda>m. \<not> is_system m) ms \<and> (\<forall>m\<in>set ms. \<exists>r. getitem_role m = Inr r)"
  by (induction ms arbitrary: rest) (auto simp: is_system_def split: sum.splits if_splits)

lemma getitem_role_fields:
  "getitem_role m = Inr r \<Longrightarrow> fst (message_fields m) = r"
  by (cases m) (auto simp: dict_get_def split: option.splits)

lemma getitem_role_dict:
  "getitem_role m = Inr r \<Longrightarrow> \<exists>kvs. m = PDict kvs \<and> kvs \<noteq> []"
  by (cases m) (auto split: option.splits)

lemma transform_messages_fields:
  "transform_messages g i msgs = Inr out \<Longrightarrow>
   map (\<lambda>m. (role m, content m)) out = map message_fields msgs"
proof (induction msgs arbitrary: i out)
  case Nil
  then show ?case by simp
next
  case (Cons m msgs)
  from Cons.prems obtain kvs where m: "m = PDict kvs"
    by (cases m) (auto split: sum.splits)
  from Cons.prems m obtain out' where
    rest: "transform_messages g (Suc i) msgs = Inr out'" and
    out: "out = \<lparr>msg_id = ''msg_'' @ g i, role = dict_get kvs ''role'' (PStr ''user''),
                 content = dict_get kvs ''content'' (PStr [])\<rparr> # out'"
    by (auto split: sum.splits)
  from Cons.IH[OF rest] out m show ?case by simp
qed

text \<open>
  C5: with the helper of Open WebUI, a body whose messages hold a system-role message, at any
  position, gives a request whose first message has the role \<open>system\<close> and the text of the
  first system-role message as content; the messages after it are the messages of the body
  that are not system-role messages, in their order, and none of them has the role \<open>system\<close>.
\<close>

theorem system_message_first:
  assumes pop: "pop_system_message L = owui_pop_system_message"
    and body: "map_of body ''messages'' = Some (PList (pre @ m0 # post))"
    and sys: "is_system m0"
    and pre: "\<forall>m\<in>set pre. \<not> is_system m"
    and ok: "transform_openwebui_to_ag_ui L V g i body = Inr (req, j)"
  shows "map (\<lambda>m. (role m, content m)) (messages req) =
           (PStr ''system'', PStr (py_str L m0))
             # map message_fields (filter (\<lambda>m. \<not> is_system m) (pre @ post))
         \<and> (\<forall>m\<in>set (tl (messages req)). role m \<noteq> PStr ''system'')"
proof -
  let ?ms = "pre @ m0 # post"
  have dg: "dict_get body ''messages'' (PList []) = PList ?ms"
    using body by (simp add: dict_get_def)
  from ok pop dg obtain sm rest where
    popr: "owui_pop_system_message (PList ?ms) = Inr (sm, rest)"
    by (auto simp: transform_openwebui_to_ag_ui_def split: sum.splits)
  then have gs: "get_system_message ?ms = Inr sm" and rs: "remove_system_message ?ms = Inr rest"
    by (auto simp: owui_pop_system_message_def split: sum.splits)
  have sm: "sm = m0" by (rule get_system_message_first[OF gs sys pre])
  from remove_system_message_filter[OF rs]
  have rest: "rest = filter (\<lambda>m. \<not> is_system m) (pre @ post)"
    and roles: "\<forall>m\<in>set ?ms. \<exists>r. getitem_role m = Inr r"
    using sys by auto
  from sys have "truthy m0"
    using getitem_role_dict[of m0 "PStr ''system''"] by (auto simp: is_system_def)
  with ok pop dg popr sm obtain k mid out where
    tm: "transform_messages g k rest = Inr out" and
    msgs: "messages req = \<lparr>msg_id = mid, role = PStr ''system'',
                           content = PStr (py_str L m0)\<rparr> # out"
    by (auto simp: transform_openwebui_to_ag_ui_def Let_def split: sum.splits)
  have fields: "map (\<lambda>m. (role m, content m)) out = map message_fields rest"
    by (rule transform_messages_fields[OF tm])
  have "\<forall>m\<in>set rest. fst (message_fields m) \<noteq> PStr ''system''"
  proof
    fix m assume m: "m \<in> set rest"
    then have "m \<in> set ?ms" and ns: "\<not> is_system m" using rest by auto
    with roles obtain r where r: "getitem_role m = Inr r" by blast
    with ns have "r \<noteq> PStr ''system''" by (simp add: is_system_def)
    with getitem_role_fields[OF r] show "fst (message_fields m) \<noteq> PStr ''system''" by simp
  qed
  then have "\<forall>p\<in>set (map message_fields rest). fst p \<noteq> PStr ''system''" by simp
  then have "\<forall>p\<in>set (map (\<lambda>m. (role m, content m)) out). fst p \<noteq> PStr ''system''"
    using fields by simp
  then have "\<forall>m\<in>set out. role m \<noteq> PStr ''system''" by simp
  with msgs fields rest show ?thesis by simp
qed

text \<open>C5, on a body whose system message stands between two user messages.\<close>

theorem system_message_first_witness:
  "map (\<lambda>m. (role m, content m))
     (messages (fst (projr (transform_openwebui_to_ag_ui sample_externals sample_valves
        sample_uuids 0 late_system_body))))
   = [(PStr ''system'', PStr ''<repr>''), (PStr ''user'', PStr ''first''),
      (PStr ''user'', PStr ''second'')]"
proof -
  let ?res = "transform_openwebui_to_ag_ui sample_externals sample_valves sample_uuids 0
      late_system_body"
  let ?pre = "[PDict [(''role'', PStr ''user''), (''content'', PStr ''first'')]]"
  let ?post = "[PDict [(''role'', PStr ''user''), (''content'', PStr ''second'')]]"
  have pop: "pop_system_message sample_externals = owui_pop_system_message"
    by (simp add: sample_externals_def)
  have body: "map_of late_system_body ''messages''
      = Some (PList (?pre @ sample_system_message # ?post))"
    by (simp add: late_system_body_def)
  have sys: "is_system sample_system_message"
    by (simp add: is_system_def sample_system_message_def)
  have pre: "\<forall>m\<in>set ?pre. \<not> is_system m"
    by (simp add: is_system_def)
  have run: "?res = Inr (fst (projr ?res), snd (projr ?res))"
    by (simp add: transform_openwebui_to_ag_ui_def sample_externals_def sample_valves_def
        late_system_body_def owui_pop_system_message_def dict_get_def sample_system_message_def
        resolve_model_def get_model_mapping_def Let_def)
  from system_message_first[OF pop body sys pre run]
  show ?thesis
    by (simp add: is_system_def sample_system_message_def sample_externals_def dict_get_def)
qed

section \<open>Properties of the streaming path\<close>

lemmas sample_texts =
  event_text_def content_text_def validation_text_def detail_text_def quoted_def sample_json_def

lemma sample_loads:
  "json_loads (answering r) (event_text ''RUN_STARTED'') = Some (PDict [(''type'', PStr ''RUN_STARTED'')])"
  "json_loads (answering r) (event_text ''TEXT_MESSAGE_START'') = Some (PDict [(''type'', PStr ''TEXT_MESSAGE_START'')])"
  "json_loads (answering r) (content_text ''Hi'') =
     Some (PDict [(''type'', PStr ''TEXT_MESSAGE_CONTENT''), (''delta'', PStr ''Hi'')])"
  "json_loads (answering r) (content_text '' there'') =
     Some (PDict [(''type'', PStr ''TEXT_MESSAGE_CONTENT''), (''delta'', PStr '' there'')])"
  "json_loads (answering r) (content_text []) =
     Some (PDict [(''type'', PStr ''TEXT_MESSAGE_CONTENT''), (''delta'', PStr [])])"
  "json_loads (answering r) (event_text ''TEXT_MESSAGE_END'') = Some (PDict [(''type'', PStr ''TEXT_MESSAGE_END'')])"
  "json_loads (answering r) (event_text ''RUN_FINISHED'') = Some (PDict [(''type'', PStr ''RUN_FINISHED'')])"
  "json_loads (answering r) validation_text =
     Some (PList [PDict [(''loc'', PList [PStr ''body'', PStr ''model'']),
                         (''msg'', PStr ''field required'')]])"
  "json_loads (answering r) detail_text = Some (PDict [(''detail'', PList [])])"
  "json_loads (answering r) ''{not json'' = None"
  by (simp_all add: answering_def sample_externals_def sample_texts)

lemma answering_post:
  "requests_post (answering r) url request headers = Returned r"
  by (simp add: answering_def)

lemma stream_events_data_line:
  "stream_events L (data_line p # rest) fin =
     (case json_loads L p of
        None \<Rightarrow> stream_events L rest fin
      | Some event_data \<Rightarrow>
          (case handle_event L event_data of
             Inl e \<Rightarrow> ([], Some e)
           | Inr (chunks, left) \<Rightarrow>
               if left then (chunks, None)
               else (chunks @ fst (stream_events L rest fin), snd (stream_events L rest fin))))"
  by (simp add: data_line_def startswith_def split: option.splits sum.splits prod.splits)

lemma stream_events_drop_silent:
  assumes "\<And>rest. stream_events L (ln # rest) fin = stream_events L rest fin"
  shows "stream_events L (pre @ ln # post) fin = stream_events L (pre @ post) fin"
proof (induction pre)
  case Nil
  show ?case using assms by simp
next
  case (Cons a pre)
  show ?case
  proof (cases a)
    case (Line s)
    with Cons.IH show ?thesis
      by (simp split: option.splits sum.splits prod.splits)
  next
    case (Undecodable m)
    then show ?thesis by simp
  qed
qed

lemma stream_response_drop_silent:
  assumes "\<And>rest. stream_events L (ln # rest) (iter_failure r) = stream_events L rest (iter_failure r)"
    and "iter_lines r = pre @ ln # post"
  shows "stream_response L V r = stream_response L V (r\<lparr>iter_lines := pre @ post\<rparr>)"
  using stream_events_drop_silent[of L ln "iter_failure r" pre post, OF assms(1)] assms(2)
  by (simp add: stream_response_def http_error_message_def generic_error_def
      split: option.splits pyval.splits)

lemma stream_sample_two_chunks:
  "stream_response (answering r) V
     (sample_response\<lparr>iter_lines := [data_line (content_text ''Hi''), data_line (content_text '' there'')]\<rparr>)
   = [PStr ''Hi'', PStr '' there'']"
  by (simp add: stream_response_def sample_response_def stream_events_data_line sample_loads dict_get_def)

subsection \<open>A run from start to finish\<close>

lemma event_fieldD:
  "event_field L p k = Some v \<Longrightarrow> \<exists>ev. json_loads L p = Some (PDict ev) \<and> map_of ev k = Some v"
  by (auto simp: event_field_def split: option.splits pyval.splits)

lemma stream_events_run_finished:
  assumes "event_field L p ''type'' = Some (PStr ''RUN_FINISHED'')"
  shows "stream_events L (pre @ data_line p # rest) fin = stream_events L pre None"
proof (induction pre)
  case Nil
  from event_fieldD[OF assms] show ?case
    by (auto simp: stream_events_data_line dict_get_def)
next
  case (Cons a pre)
  show ?case
  proof (cases a)
    case (Line s)
    with Cons.IH show ?thesis
      by (simp split: option.splits sum.splits prod.splits)
  next
    case (Undecodable m)
    then show ?thesis by simp
  qed
qed

lemma stream_events_passed_over:
  assumes "passed_over L ln"
  shows "stream_events L (ln # rest) fin = stream_events L rest fin"
proof (cases ln)
  case (Line s)
  show ?thesis
  proof (cases "startswith s ''data: ''")
    case True
    with assms Line obtain ev where
      ev: "json_loads L (drop 6 s) = Some (PDict ev)"
      and ty: "map_of ev ''type'' \<in> {Some (PStr ''RUN_STARTED''), Some (PStr ''TEXT_MESSAGE_START''),
                 Some (PStr ''TEXT_MESSAGE_END'')}"
      by (auto simp: event_field_def split: option.splits pyval.splits)
    from ty have "handle_event L (PDict ev) = Inr ([], False)"
      by (auto simp: dict_get_def)
    with True ev Line show ?thesis
      by (simp split: prod.splits)
  next
    case False
    with Line show ?thesis by simp
  qed
next
  case (Undecodable m)
  with assms show ?thesis by simp
qed

lemma stream_events_passed_over_all:
  "list_all (passed_over L) s \<Longrightarrow> stream_events L (s @ rest) fin = stream_events L rest fin"
proof (induction s)
  case Nil
  show ?case by simp
next
  case (Cons a s)
  then show ?case
    using stream_events_passed_over[of L a "s @ rest" fin] by simp
qed

lemma stream_events_content:
  assumes "event_field L p ''type'' = Some (PStr ''TEXT_MESSAGE_CONTENT'')"
    and "event_field L p ''delta'' = Some d" and "truthy d"
  shows "stream_events L (data_line p # rest) fin =
           (d # fst (stream_events L rest fin), snd (stream_events L rest fin))"
  using event_fieldD[OF assms(1)] event_fieldD[OF assms(2)] assms(3)
  by (auto simp: stream_events_data_line dict_get_def)

lemma stream_events_advisory:
  assumes "event_field L p ''type'' = Some (PStr ty)"
    and "ty \<in> {''RUN_STARTED'', ''TEXT_MESSAGE_START'', ''TEXT_MESSAGE_END''}"
  shows "stream_events L (data_line p # rest) fin = stream_events L rest fin"
  using event_fieldD[OF assms(1)] assms(2)
  by (auto simp: stream_events_data_line dict_get_def)

lemma sample_event_fields:
  "event_field (answering r) (event_text ''RUN_STARTED'') ''type'' = Some (PStr ''RUN_STARTED'')"
  "event_field (answering r) (event_text ''TEXT_MESSAGE_START'') ''type'' = Some (PStr ''TEXT_MESSAGE_START'')"
  "event_field (answering r) (content_text ''Hi'') ''type'' = Some (PStr ''TEXT_MESSAGE_CONTENT'')"
  "event_field (answering r) (content_text ''Hi'') ''delta'' = Some (PStr ''Hi'')"
  "event_field (answering r) (content_text '' there'') ''type'' = Some (PStr ''TEXT_MESSAGE_CONTENT'')"
  "event_field (answering r) (content_text '' there'') ''delta'' = Some (PStr '' there'')"
  "event_field (answering r) (event_text ''TEXT_MESSAGE_END'') ''type'' = Some (PStr ''TEXT_MESSAGE_END'')"
  "event_field (answering r) (event_text ''RUN_FINISHED'') ''type'' = Some (PStr ''RUN_FINISHED'')"
  by (simp_all add: event_field_def sample_loads)

text \<open>
  C2: the endpoint has answered the request. First, a line whose event has the type
  RUN_FINISHED ends the reading wherever it stands: the chunks yielded are those of the lines
  before it alone, whatever lines follow it and whether or not the connection fails later.
  Second, when the status is 200 and the stream carries, in this order, the events RUN_STARTED,
  TEXT_MESSAGE_START, TEXT_MESSAGE_CONTENT with delta \<open>Hi\<close>, TEXT_MESSAGE_CONTENT with
  delta \<open> there\<close>, TEXT_MESSAGE_END and RUN_FINISHED, the chunks yielded are exactly
  \<open>Hi\<close> and \<open> there\<close>. The events may carry other keys, and before and between them
  there may stand blank lines, lines that do not begin with \<open>data: \<close> and further events
  that mark the start of the run or the start or the end of a message; none of them is
  yielded and none of them ends the reading.
\<close>

theorem literal_stream_transcoding:
  assumes post: "requests_post L (AG_UI_ENDPOINT_URL V) req stream_headers = Returned r"
  shows
    "(iter_lines r = pre @ data_line p # rest \<and>
      event_field L p ''type'' = Some (PStr ''RUN_FINISHED'')
      \<longrightarrow> stream_ag_ui_request L V req
            = stream_response L V (r\<lparr>iter_lines := pre, iter_failure := None\<rparr>))
     \<and>
     (status_code r = 200 \<and>
      iter_lines r =
        s0 @ data_line p1 # s1 @ data_line p2 # s2 @ data_line p3 # s3 @ data_line p4
           # s4 @ data_line p5 # s5 @ data_line p6 # after \<and>
      list_all (passed_over L) (s0 @ s1 @ s2 @ s3 @ s4 @ s5) \<and>
      event_field L p1 ''type'' = Some (PStr ''RUN_STARTED'') \<and>
      event_field L p2 ''type'' = Some (PStr ''TEXT_MESSAGE_START'') \<and>
      event_field L p3 ''type'' = Some (PStr ''TEXT_MESSAGE_CONTENT'') \<and>
      event_field L p3 ''delta'' = Some (PStr ''Hi'') \<and>
      event_field L p4 ''type'' = Some (PStr ''TEXT_MESSAGE_CONTENT'') \<and>
      event_field L p4 ''delta'' = Some (PStr '' there'') \<and>
      event_field L p5 ''type'' = Some (PStr ''TEXT_MESSAGE_END'') \<and>
      event_field L p6 ''type'' = Some (PStr ''RUN_FINISHED'')
      \<longrightarrow> stream_ag_ui_request L V req = [PStr ''Hi'', PStr '' there''])"
proof (intro conjI impI)
  assume a: "iter_lines r = pre @ data_line p # rest \<and>
      event_field L p ''type'' = Some (PStr ''RUN_FINISHED'')"
  then have "stream_events L (iter_lines r) (iter_failure r) = stream_events L pre None"
    by (simp add: stream_events_run_finished)
  with post show "stream_ag_ui_request L V req
            = stream_response L V (r\<lparr>iter_lines := pre, iter_failure := None\<rparr>)"
    by (simp add: stream_ag_ui_request_def stream_response_def http_error_message_def
        generic_error_def split: option.splits pyval.splits)
next
  assume b: "status_code r = 200 \<and>
      iter_lines r =
        s0 @ data_line p1 # s1 @ data_line p2 # s2 @ data_line p3 # s3 @ data_line p4
           # s4 @ data_line p5 # s5 @ data_line p6 # after \<and>
      list_all (passed_over L) (s0 @ s1 @ s2 @ s3 @ s4 @ s5) \<and>
      event_field L p1 ''type'' = Some (PStr ''RUN_STARTED'') \<and>
      event_field L p2 ''type'' = Some (PStr ''TEXT_MESSAGE_START'') \<and>
      event_field L p3 ''type'' = Some (PStr ''TEXT_MESSAGE_CONTENT'') \<and>
      event_field L p3 ''delta'' = Some (PStr ''Hi'') \<and>
      event_field L p4 ''type'' = Some (PStr ''TEXT_MESSAGE_CONTENT'') \<and>
      event_field L p4 ''delta'' = Some (PStr '' there'') \<and>
      event_field L p5 ''type'' = Some (PStr ''TEXT_MESSAGE_END'') \<and>
      event_field L p6 ''type'' = Some (PStr ''RUN_FINISHED'')"
  let ?fin = "iter_failure r"
  from b have s: "list_all (passed_over L) s0" "list_all (passed_over L) s1"
    "list_all (passed_over L) s2" "list_all (passed_over L) s3"
    "list_all (passed_over L) s4" "list_all (passed_over L) s5"
    by simp_all
  have "stream_events L (s5 @ data_line p6 # after) ?fin = ([], None)"
    using stream_events_run_finished[of L p6 s5 after ?fin] stream_events_passed_over_all[of L s5 "[]" None] b s(6)
    by simp
  then have "stream_events L (s4 @ data_line p5 # s5 @ data_line p6 # after) ?fin = ([], None)"
    using b s(5) by (simp add: stream_events_passed_over_all stream_events_advisory)
  then have "stream_events L (s3 @ data_line p4 # s4 @ data_line p5 # s5 @ data_line p6 # after) ?fin
      = ([PStr '' there''], None)"
    using b s(4) by (simp add: stream_events_passed_over_all stream_events_content)
  then have "stream_events L
      (s2 @ data_line p3 # s3 @ data_line p4 # s4 @ data_line p5 # s5 @ data_line p6 # after) ?fin
      = ([PStr ''Hi'', PStr '' there''], None)"
    using b s(3) by (simp add: stream_events_passed_over_all stream_events_content)
  then have "stream_events L
      (s1 @ data_line p2 # s2 @ data_line p3 # s3 @ data_line p4 # s4 @ data_line p5 # s5 @ data_line p6 # after) ?fin
      = ([PStr ''Hi'', PStr '' there''], None)"
    using b s(2) by (simp add: stream_events_passed_over_all stream_events_advisory)
  then have "stream_events L (iter_lines r) ?fin = ([PStr ''Hi'', PStr '' there''], None)"
    using b s(1) by (simp add: stream_events_passed_over_all stream_events_advisory)
  with post b show "stream_ag_ui_request L V req = [PStr ''Hi'', PStr '' there'']"
    by (simp add: stream_ag_ui_request_def stream_response_def)
qed

text \<open>
  C2, on a stream that opens with a blank line, runs from start to finish, carries one more
  content event after RUN_FINISHED and then fails: the chunks are those of the lines before
  RUN_FINISHED, \<open>Hi\<close> and \<open> there\<close>.
\<close>

theorem literal_stream_transcoding_witness:
  "stream_ag_ui_request (answering interrupted_run) sample_valves (sample_request 0)
     = stream_response (answering interrupted_run) sample_valves
         (interrupted_run
            \<lparr>iter_lines :=
               Line [] # map data_line
                 [event_text ''RUN_STARTED'', event_text ''TEXT_MESSAGE_START'',
                  content_text ''Hi'', content_text '' there'', event_text ''TEXT_MESSAGE_END''],
             iter_failure := None\<rparr>)
   \<and> stream_ag_ui_request (answering interrupted_run) sample_valves (sample_request 0)
     = [PStr ''Hi'', PStr '' there'']"
proof -
  note run = literal_stream_transcoding
    [where L = "answering interrupted_run" and r = interrupted_run and V = sample_valves
       and req = "sample_request 0"
       and pre = "Line [] # map data_line
                 [event_text ''RUN_STARTED'', event_text ''TEXT_MESSAGE_START'',
                  content_text ''Hi'', content_text '' there'', event_text ''TEXT_MESSAGE_END'']"
       and p = "event_text ''RUN_FINISHED''"
       and rest = "[data_line (content_text ''Hi'')]"
       and ?s0.0 = "[Line []]" and ?s1.0 = "[]" and ?s2.0 = "[]" and ?s3.0 = "[]"
       and ?s4.0 = "[]" and ?s5.0 = "[]"
       and ?p1.0 = "event_text ''RUN_STARTED''" and ?p2.0 = "event_text ''TEXT_MESSAGE_START''"
       and ?p3.0 = "content_text ''Hi''" and ?p4.0 = "content_text '' there''"
       and ?p5.0 = "event_text ''TEXT_MESSAGE_END''" and ?p6.0 = "event_text ''RUN_FINISHED''"
       and after = "[data_line (content_text ''Hi'')]",
     OF answering_post]
  have ok: "status_code interrupted_run = 200"
    by (simp add: interrupted_run_def sample_response_def)
  have lines: "iter_lines interrupted_run =
      Line [] # map data_line
        [event_text ''RUN_STARTED'', event_text ''TEXT_MESSAGE_START'', content_text ''Hi'',
         content_text '' there'', event_text ''TEXT_MESSAGE_END'', event_text ''RUN_FINISHED'']
      @ [data_line (content_text ''Hi'')]"
    by (simp add: interrupted_run_def finished_stream_def)
  have stopped:
    "stream_ag_ui_request (answering interrupted_run) sample_valves (sample_request 0)
       = stream_response (answering interrupted_run) sample_valves
           (interrupted_run
              \<lparr>iter_lines :=
                 Line [] # map data_line
                   [event_text ''RUN_STARTED'', event_text ''TEXT_MESSAGE_START'',
                    content_text ''Hi'', content_text '' there'', event_text ''TEXT_MESSAGE_END''],
               iter_failure := None\<rparr>)"
    by (rule run[THEN conjunct1, THEN mp]) (simp add: lines sample_event_fields)
  have chunks:
    "stream_ag_ui_request (answering interrupted_run) sample_valves (sample_request 0)
       = [PStr ''Hi'', PStr '' there'']"
    by (rule run[THEN conjunct2, THEN mp])
      (simp add: ok lines sample_event_fields startswith_def)
  from stopped chunks show ?thesis
    by (rule conjI)
qed

subsection \<open>Lines that are not JSON\<close>



subsection \<open>Validation errors\<close>

lemma format_validation_error_rendered:
  "has_loc_msg e f \<Longrightarrow> format_validation_error L e = Inr (render_validation_error L f)"
  by (cases e; cases f)
     (simp_all add: format_validation_error_def render_validation_error_def dict_get_def)

lemma validation_errors_rendered:
  "list_all2 has_loc_msg errors parts \<Longrightarrow>
   validation_errors L errors = Inr (map (render_validation_error L) parts)"
  by (induction rule: list_all2_induct) (simp_all add: format_validation_error_rendered)

text \<open>
  C7: when the status is 422 and the body is a JSON list of errors with a location and a
  message each, the only chunk is \<open>Validation Error: \<close> followed by the errors joined by
  \<open>; \<close>, each rendered as its location joined by \<open>.\<close>, a colon, a space and its message;
  no line of the stream is read.
\<close>

theorem validation_error_formatting:
  assumes post: "requests_post L (AG_UI_ENDPOINT_URL V) req stream_headers = Returned r"
    and status: "status_code r = 422"
    and parsed: "json_loads L (body_text r) = Some (PList errors)"
    and shape: "list_all2 has_loc_msg errors parts"
  shows "stream_ag_ui_request L V req =
     [PStr (''Validation Error: '' @ py_join ''; '' (map (render_validation_error L) parts))]"
  using post status parsed validation_errors_rendered[OF shape, of L]
  by (simp add: stream_ag_ui_request_def stream_response_def http_error_message_def)

text \<open>
  C7, on the body \<open>[{"loc":["body","model"],"msg":"field required"}]\<close>, with a stream that
  would yield chunks if it were read.
\<close>

theorem validation_error_formatting_witness:
  "stream_ag_ui_request
     (answering (sample_response\<lparr>status_code := 422, body_text := validation_text,
        iter_lines := finished_stream\<rparr>))
     sample_valves (sample_request 0)
   = [PStr ''Validation Error: body.model: field required'']"
proof -
  let ?r = "sample_response\<lparr>status_code := 422, body_text := validation_text,
      iter_lines := finished_stream\<rparr>"
  have status: "status_code ?r = 422" by simp
  have parsed: "json_loads (answering ?r) (body_text ?r) =
      Some (PList [PDict [(''loc'', PList [PStr ''body'', PStr ''model'']),
                          (''msg'', PStr ''field required'')]])"
    by (simp add: sample_loads)
  have shape: "list_all2 has_loc_msg
      [PDict [(''loc'', PList [PStr ''body'', PStr ''model'']), (''msg'', PStr ''field required'')]]
      [([PStr ''body'', PStr ''model''], PStr ''field required'')]"
    by simp
  from validation_error_formatting[OF answering_post status parsed shape]
  show ?thesis by (simp add: render_validation_error_def)
qed

subsection \<open>Empty deltas\<close>

lemma handle_event_empty:
  assumes kind: "(t, k) \<in> {(''TEXT_MESSAGE_CONTENT'', ''delta''), (''TOOL_CALL_ARGS'', ''delta''),
        (''TOOL_CALL_RESULT'', ''content'')}"
    and ty: "map_of ev ''type'' = Some (PStr t)"
    and empty: "map_of ev k = None \<or> map_of ev k = Some (PStr [])"
  shows "handle_event L (PDict ev) = Inr ([], False)"
  using assms by (auto simp: dict_get_def)

text \<open>
  C9: a TEXT_MESSAGE_CONTENT or TOOL_CALL_ARGS event whose \<open>delta\<close> is absent or the empty
  string, and a TOOL_CALL_RESULT event whose \<open>content\<close> is absent or the empty string, yield
  no chunk and the loop goes on: the chunks are those of the response without that line.
\<close>

theorem empty_delta_suppressed:
  assumes post: "requests_post L (AG_UI_ENDPOINT_URL V) req stream_headers = Returned r"
    and lines: "iter_lines r = pre @ data_line p # post"
    and parsed: "json_loads L p = Some (PDict ev)"
    and kind: "(t, k) \<in> {(''TEXT_MESSAGE_CONTENT'', ''delta''), (''TOOL_CALL_ARGS'', ''delta''),
        (''TOOL_CALL_RESULT'', ''content'')}"
    and ty: "map_of ev ''type'' = Some (PStr t)"
    and empty: "map_of ev k = None \<or> map_of ev k = Some (PStr [])"
  shows "handle_event L (PDict ev) = Inr ([], False)
       \<and> stream_ag_ui_request L V req = stream_response L V (r\<lparr>iter_lines := pre @ post\<rparr>)"
proof -
  have silent: "handle_event L (PDict ev) = Inr ([], False)"
    by (rule handle_event_empty[OF kind ty empty])
  have "\<And>rest. stream_events L (data_line p # rest) (iter_failure r)
      = stream_events L rest (iter_failure r)"
    using parsed silent by (simp add: stream_events_data_line)
  from stream_response_drop_silent[OF this lines] post silent show ?thesis
    by (simp add: stream_ag_ui_request_def)
qed

text \<open>
  C9, on a content event with an empty delta between two with the deltas \<open>Hi\<close> and
  \<open> there\<close>: both of these are yielded and nothing between them.
\<close>

theorem empty_delta_suppressed_witness:
  "stream_ag_ui_request (answering (sample_response\<lparr>iter_lines := empty_delta_stream\<rparr>))
     sample_valves (sample_request 0) = [PStr ''Hi'', PStr '' there'']"
proof -
  let ?r = "sample_response\<lparr>iter_lines := empty_delta_stream\<rparr>"
  have lines: "iter_lines ?r = [data_line (content_text ''Hi'')] @ data_line (content_text [])
      # [data_line (content_text '' there'')]"
    by (simp add: empty_delta_stream_def)
  have kind: "(''TEXT_MESSAGE_CONTENT'', ''delta'') \<in> {(''TEXT_MESSAGE_CONTENT'', ''delta''),
      (''TOOL_CALL_ARGS'', ''delta''), (''TOOL_CALL_RESULT'', ''content'')}"
    by simp
  have ty: "map_of [(''type'', PStr ''TEXT_MESSAGE_CONTENT''), (''delta'', PStr [])] ''type''
      = Some (PStr ''TEXT_MESSAGE_CONTENT'')"
    by simp
  have empty: "map_of [(''type'', PStr ''TEXT_MESSAGE_CONTENT''), (''delta'', PStr [])] ''delta'' = None
      \<or> map_of [(''type'', PStr ''TEXT_MESSAGE_CONTENT''), (''delta'', PStr [])] ''delta''
          = Some (PStr [])"
    by simp
  from empty_delta_suppressed[OF answering_post lines sample_loads(5) kind ty empty,
      of sample_valves "sample_request 0"]
  show ?thesis
    using stream_sample_two_chunks[of ?r sample_valves] by simp
qed

section \<open>Properties of the non-streaming path\<close>

lemma case_map_of_keys:
  "(case map_of kvs k of None \<Rightarrow> a | Some v \<Rightarrow> f v) =
     (if k \<in> fst ` set kvs then f (the (map_of kvs k)) else a)"
proof (cases "k \<in> fst ` set kvs")
  case True
  then have "map_of kvs k \<noteq> None" by (simp add: map_of_eq_None_iff)
  then obtain v where "map_of kvs k = Some v" by blast
  with True show ?thesis by simp
next
  case False
  then have "map_of kvs k = None" by (simp add: map_of_eq_None_iff)
  with False show ?thesis by simp
qed

text \<open>
  C8: when the endpoint answers with status 200 and a JSON object, the value returned is that
  of the first of the keys \<open>content\<close>, \<open>message\<close>, \<open>text\<close>, \<open>result\<close> the object has (the
  value under \<open>result\<close> as its text, the others as they are), and the object printed as
  indented JSON when it has none of them.
\<close>

theorem non_stream_extraction_order:
  assumes post: "requests_post L (AG_UI_ENDPOINT_URL V) (non_streaming req) json_headers = Returned r"
    and ok: "status_code r = 200"
    and body: "json r = Inr (PDict result)"
  shows "non_stream_ag_ui_request L V req =
     (if ''content'' \<in> fst ` set result then the (map_of result ''content'')
      else if ''message'' \<in> fst ` set result then the (map_of result ''message'')
      else if ''text'' \<in> fst ` set result then the (map_of result ''text'')
      else if ''result'' \<in> fst ` set result
        then PStr (py_str L (the (map_of result ''result'')))
      else PStr (json_dumps_indent2 L (PDict result)))"
proof -
  have run: "non_stream_ag_ui_request L V req = extract_result L (PDict result)"
    using post ok body by (simp add: non_stream_ag_ui_request_def non_streaming_def Let_def)
  show ?thesis
    unfolding run by (simp add: case_map_of_keys)
qed

text \<open>
  C8, on the bodies \<open>{"content":"answer"}\<close>, which gives \<open>answer\<close>, and
  \<open>{"foo":"bar"}\<close>, which gives the whole body as indented JSON.
\<close>

theorem non_stream_extraction_order_witness:
  "non_stream_ag_ui_request
     (answering (sample_response\<lparr>json := Inr (PDict [(''content'', PStr ''answer'')])\<rparr>))
     sample_valves (sample_request 0) = PStr ''answer''
   \<and> non_stream_ag_ui_request
     (answering (sample_response\<lparr>json := Inr (PDict [(''foo'', PStr ''bar'')])\<rparr>))
     sample_valves (sample_request 0)
     = PStr (json_dumps_indent2 sample_externals (PDict [(''foo'', PStr ''bar'')]))"
proof -
  let ?a = "sample_response\<lparr>json := Inr (PDict [(''content'', PStr ''answer'')])\<rparr>"
  let ?b = "sample_response\<lparr>json := Inr (PDict [(''foo'', PStr ''bar'')])\<rparr>"
  have oka: "status_code ?a = 200" and okb: "status_code ?b = 200"
    by (simp_all add: sample_response_def)
  have ja: "json ?a = Inr (PDict [(''content'', PStr ''answer'')])"
    and jb: "json ?b = Inr (PDict [(''foo'', PStr ''bar'')])"
    by simp_all
  from non_stream_extraction_order[OF answering_post oka ja]
    non_stream_extraction_order[OF answering_post okb jb]
  show ?thesis by (simp add: answering_def sample_externals_def)
qed

section \<open>Status 422 without a list of errors\<close>




end
